theory Spec2Isabelle
  imports Main
begin

section \<open>Data model\<close>

text \<open>
  The dataclass \<open>Order\<close> of \<^verbatim>\<open>refactor_solid.py\<close>: three fields, the third with
  the default \<open>"open"\<close>. Python does not enforce the annotation \<open>float\<close> of
  \<open>total_price\<close> (the script itself stores the integers 500000 and 100000), so the
  type of the price is a parameter \<open>'p\<close> of the record.
\<close>

record 'p Order =
  customer_name :: string
  total_price :: 'p
  status :: string

text \<open>
  The generated constructor \<open>Order(customer_name, total_price, status="open")\<close>:
  the optional third argument is \<open>None\<close> when the caller leaves it out.
\<close>

definition Order_init :: "string \<Rightarrow> 'p \<Rightarrow> string option \<Rightarrow> 'p Order" where
  "Order_init cn tp st =
     \<lparr>customer_name = cn, total_price = tp,
      status = (case st of None \<Rightarrow> ''open'' | Some s \<Rightarrow> s)\<rparr>"

subsection \<open>The log stream\<close>

text \<open>
  \<open>logging.basicConfig(level = INFO, format = '%(asctime)s - %(levelname)s - %(name)s -
  %(message)s')\<close>: every record of level INFO or ERROR is written. A record of the
  model keeps the level, the logger's name and the message; the wall-clock time
  \<open>asctime\<close> is left out.
\<close>

datatype levelname = INFO | ERROR

record log_record =
  levelname :: levelname
  name :: string
  message :: string

definition LOGGER :: string where
  "LOGGER = ''Checkout''"

definition LOGGER2 :: string where
  "LOGGER2 = ''Notifikasi''"

definition LOGGER3 :: string where
  "LOGGER3 = ''Metode Pembayaran''"

definition log_info :: "string \<Rightarrow> string \<Rightarrow> log_record" where
  "log_info lg msg = \<lparr>levelname = INFO, name = lg, message = msg\<rparr>"

definition log_error :: "string \<Rightarrow> string \<Rightarrow> log_record" where
  "log_error lg msg = \<lparr>levelname = ERROR, name = lg, message = msg\<rparr>"

subsection \<open>Formatting\<close>

text \<open>
  Python's \<open>str\<close> of an \<open>int\<close>, which is what the f-string \<open>{order.total_price}\<close>
  produces for the integer prices of the script: the decimal digits, after a minus sign for
  a negative number.
\<close>

fun str_nat :: "nat \<Rightarrow> string" where
  "str_nat n =
     (if n < 10 then [''0123456789'' ! n]
      else str_nat (n div 10) @ [''0123456789'' ! (n mod 10)])"

declare str_nat.simps [simp del]

definition str_int :: "int \<Rightarrow> string" where
  "str_int i = (if i < 0 then CHR ''-'' # str_nat (nat (- i)) else str_nat (nat i))"

section \<open>The two interfaces and their implementations\<close>

text \<open>
  \<open>IPaymentProcessor.process(order)\<close> and \<open>INotificationService.send(order)\<close> are
  abstract: an injected object is any implementation of the one method. Following the
  docstrings of the interfaces (the order is the object that "contains the information"
  of the transaction, \<open>process\<close> returns a \<open>bool\<close>, \<open>send\<close> returns nothing) and the
  three implementations of the file, a method of these two types reads the order, may
  change the private state \<open>'s\<close> of the injected objects, may write log records, and
  always returns. Python objects that also assign to the order they are handed, or raise,
  are the subject of the section on arbitrary injected objects below.
\<close>

type_synonym ('p, 's) IPaymentProcessor =
  "'p Order \<Rightarrow> 's \<Rightarrow> bool \<times> log_record list \<times> 's"

type_synonym ('p, 's) INotificationService =
  "'p Order \<Rightarrow> 's \<Rightarrow> log_record list \<times> 's"

definition CreditCardProcessor :: "('p, 's) IPaymentProcessor" where
  "CreditCardProcessor order s =
     (True, [log_info LOGGER3 ''Payment: Memproses Kartu Kredit.''], s)"

definition QrisProcessor :: "('p, 's) IPaymentProcessor" where
  "QrisProcessor order s =
     (True, [log_info LOGGER3 ''Payment: Memproses QRIS.''], s)"

definition EmailNotifier :: "('p, 's) INotificationService" where
  "EmailNotifier order s =
     ([log_info LOGGER2
        (''Notif: Mengirim email konfirmasi ke '' @ customer_name order @ ''.'')], s)"

text \<open>
  A processor that is not in the file: it logs nothing and returns the given result.
  With \<open>False\<close> it is the declined payment that the branch \<open>else\<close> of \<open>run_checkout\<close>
  is written for; it is used to run that branch on a concrete input.
\<close>

definition FixedProcessor :: "bool \<Rightarrow> ('p, 's) IPaymentProcessor" where
  "FixedProcessor b order s = (b, [], s)"

section \<open>The coordinator\<close>

text \<open>
  The state outside the order: the log stream and the standard output (oldest entry
  first), the private state of the injected objects, and the list of the method calls
  made on the injected objects, each with the order as it was at the call (what a test
  double would record). The injected methods have no access to that list.
\<close>

datatype 'p call = Process "'p Order" | Send "'p Order"

record ('p, 's) state =
  logged :: "log_record list"
  stdout :: "string list"
  priv :: 's
  calls :: "'p call list"

definition emit :: "log_record \<Rightarrow> ('p, 's) state \<Rightarrow> ('p, 's) state" where
  "emit r st = st\<lparr>logged := logged st @ [r]\<rparr>"

definition print :: "string \<Rightarrow> ('p, 's) state \<Rightarrow> ('p, 's) state" where
  "print line st = st\<lparr>stdout := stdout st @ [line]\<rparr>"

definition call_process ::
  "('p, 's) IPaymentProcessor \<Rightarrow> 'p Order \<Rightarrow> ('p, 's) state \<Rightarrow> bool \<times> ('p, 's) state" where
  "call_process pp order st =
     (case pp order (priv st) of
        (r, out, s') \<Rightarrow>
          (r, st\<lparr>logged := logged st @ out, priv := s',
                 calls := calls st @ [Process order]\<rparr>))"

definition call_send ::
  "('p, 's) INotificationService \<Rightarrow> 'p Order \<Rightarrow> ('p, 's) state \<Rightarrow> ('p, 's) state" where
  "call_send nt order st =
     (case nt order (priv st) of
        (out, s') \<Rightarrow>
          st\<lparr>logged := logged st @ out, priv := s',
              calls := calls st @ [Send order]\<rparr>)"

record ('p, 's) CheckoutService =
  payment_processor :: "('p, 's) IPaymentProcessor"
  notifier :: "('p, 's) INotificationService"

text \<open>
  \<open>CheckoutService.run_checkout(order)\<close>. The order is passed by reference and
  assigned to, so the model returns it beside the result. \<open>fmt\<close> is Python's
  formatting of the price inside the f-string of the first log message (\<open>str_int\<close>
  for the integer prices of the script).
\<close>

definition run_checkout ::
  "('p \<Rightarrow> string) \<Rightarrow> ('p, 's) CheckoutService \<Rightarrow> 'p Order \<Rightarrow> ('p, 's) state
     \<Rightarrow> bool \<times> 'p Order \<times> ('p, 's) state" where
  "run_checkout fmt self order st =
     (let st1 = emit (log_info LOGGER
                  (''Memulai checkout untuk '' @ customer_name order @ ''. Total: ''
                     @ fmt (total_price order))) st;
          (payment_success, st2) = call_process (payment_processor self) order st1
      in if payment_success then
           (let order' = order\<lparr>status := ''paid''\<rparr>;
                st3 = call_send (notifier self) order' st2;
                st4 = emit (log_info LOGGER ''Checkout Sukses. Status pesanan: PAID'') st3
            in (True, order', st4))
         else
           (False, order,
            emit (log_error LOGGER ''Pembayaran gagal. Transaksi dibatalkan.'') st2))"

text \<open>The orders \<open>Send\<close> was called with, in the order of the calls.\<close>

fun sends :: "'p call list \<Rightarrow> 'p Order list" where
  "sends [] = []"
| "sends (Process _ # cs) = sends cs"
| "sends (Send order # cs) = order # sends cs"

section \<open>The script\<close>

definition andi_order :: "int Order" where
  "andi_order = Order_init ''Andi'' 500000 None"

definition email_service :: "(int, unit) INotificationService" where
  "email_service = EmailNotifier"

definition cc_processor :: "(int, unit) IPaymentProcessor" where
  "cc_processor = CreditCardProcessor"

definition checkout_cc :: "(int, unit) CheckoutService" where
  "checkout_cc = \<lparr>payment_processor = cc_processor, notifier = email_service\<rparr>"

definition budi_order :: "int Order" where
  "budi_order = Order_init ''Budi'' 100000 None"

definition qris_processor :: "(int, unit) IPaymentProcessor" where
  "qris_processor = QrisProcessor"

definition checkout_qris :: "(int, unit) CheckoutService" where
  "checkout_qris = \<lparr>payment_processor = qris_processor, notifier = email_service\<rparr>"

definition init_state :: "(int, unit) state" where
  "init_state = \<lparr>logged = [], stdout = [], priv = (), calls = []\<rparr>"

text \<open>
  The statements of the module after the definitions, in their order. The script drops
  the two results of \<open>run_checkout\<close>; the model returns them, with the two orders as
  they are at the end.
\<close>

definition main ::
  "(bool \<times> int Order) \<times> (bool \<times> int Order) \<times> (int, unit) state" where
  "main =
     (let st1 = print ''--- Skenario 1: Credit Card ---'' init_state;
          (r1, andi, st2) = run_checkout str_int checkout_cc andi_order st1;
          st3 = print (CHR 0x0A # ''--- Skenario 2: Pembuktian OCP (QRIS) ---'') st2;
          (r2, budi, st4) = run_checkout str_int checkout_qris budi_order st3
      in ((r1, andi), (r2, budi), st4))"

section \<open>Arbitrary injected objects\<close>

text \<open>
  Python hands \<open>process\<close> and \<open>send\<close> the caller's \<open>Order\<close> object itself, and
  \<open>run_checkout\<close> has no \<open>try\<close>: an injected object may assign to the fields of the
  order, and an exception it raises is the outcome of \<open>run_checkout\<close>. A method of the
  following two types returns its result or the exception it raised, the order as it
  leaves it, the log records it wrote and the new private state.
\<close>

type_synonym ('p, 's, 'e) process_method =
  "'p Order \<Rightarrow> 's \<Rightarrow> ('e + bool) \<times> 'p Order \<times> log_record list \<times> 's"

type_synonym ('p, 's, 'e) send_method =
  "'p Order \<Rightarrow> 's \<Rightarrow> ('e + unit) \<times> 'p Order \<times> log_record list \<times> 's"

record ('p, 's, 'e) injected =
  process :: "('p, 's, 'e) process_method"
  send :: "('p, 's, 'e) send_method"

text \<open>
  The implementations of the file (and every method that only reads the order and always
  returns) as such methods: the order comes back as it was given, and nothing is raised.
\<close>

definition as_process :: "('p, 's) IPaymentProcessor \<Rightarrow> ('p, 's, 'e) process_method" where
  "as_process pp order s = (case pp order s of (r, out, s') \<Rightarrow> (Inr r, order, out, s'))"

definition as_send :: "('p, 's) INotificationService \<Rightarrow> ('p, 's, 'e) send_method" where
  "as_send nt order s = (case nt order s of (out, s') \<Rightarrow> (Inr (), order, out, s'))"

definition as_injected :: "('p, 's) CheckoutService \<Rightarrow> ('p, 's, 'e) injected" where
  "as_injected self =
     \<lparr>process = as_process (payment_processor self), send = as_send (notifier self)\<rparr>"

text \<open>
  Objects that are not in the file: a processor and a notifier that assign to the order
  (\<open>f\<close> is the assignment; the processor then returns \<open>b\<close>), and a processor and a
  notifier that raise the exception \<open>e\<close>. In Python, the first notifier with the
  assignment of \<open>"open"\<close> to the status is
  \<^verbatim>\<open>class N(INotificationService):
    def send(self, order): order.status = "open"\<close>
\<close>

definition AssigningProcessor ::
  "('p Order \<Rightarrow> 'p Order) \<Rightarrow> bool \<Rightarrow> ('p, 's, 'e) process_method" where
  "AssigningProcessor f b order s = (Inr b, f order, [], s)"

definition AssigningNotifier :: "('p Order \<Rightarrow> 'p Order) \<Rightarrow> ('p, 's, 'e) send_method" where
  "AssigningNotifier f order s = (Inr (), f order, [], s)"

definition RaisingProcessor :: "'e \<Rightarrow> ('p, 's, 'e) process_method" where
  "RaisingProcessor e order s = (Inl e, order, [], s)"

definition RaisingNotifier :: "'e \<Rightarrow> ('p, 's, 'e) send_method" where
  "RaisingNotifier e order s = (Inl e, order, [], s)"

text \<open>
  A method keeps the status, or the whole order, when the order it leaves has the status,
  or all the fields, of the order it was given.
\<close>

definition keeps_status :: "('p Order \<Rightarrow> 's \<Rightarrow> 'r \<times> 'p Order \<times> 'x) \<Rightarrow> bool" where
  "keeps_status m = (\<forall>order s. status (fst (snd (m order s))) = status order)"

definition keeps_order :: "('p Order \<Rightarrow> 's \<Rightarrow> 'r \<times> 'p Order \<times> 'x) \<Rightarrow> bool" where
  "keeps_order m = (\<forall>order s. fst (snd (m order s)) = order)"

subsection \<open>Exceptions of the f-string\<close>

text \<open>
  The f-string of line 144 formats \<open>order.total_price\<close>. For an \<open>int\<close>, CPython 3.11
  and later (and the security releases of 3.7 to 3.10) refuse the conversion to decimal
  digits of a number of more than \<open>sys.int_info.default_max_str_digits = 4300\<close>
  digits, that is of absolute value \<open>10 ^ 4300\<close> or more, with a \<open>ValueError\<close>.
  \<open>RuntimeError\<close> is the exception the raising objects of the examples raise.
\<close>

datatype py_error = ValueError | RuntimeError

definition int_max_str_digits :: nat where
  "int_max_str_digits = 4300"

definition format_int :: "int \<Rightarrow> py_error + string" where
  "format_int i =
     (if 10 ^ int_max_str_digits \<le> \<bar>i\<bar> then Inl ValueError else Inr (str_int i))"

text \<open>An order of the script's customer with a price of 4301 digits.\<close>

definition overlong_price :: int where
  "overlong_price = 10 ^ 4300"

definition overlong_order :: "int Order" where
  "overlong_order = Order_init ''Andi'' overlong_price None"

subsection \<open>The coordinator, for arbitrary injected objects\<close>

text \<open>
  \<open>CheckoutService.run_checkout(order)\<close>, lines 144 to 155, statement by statement:
  the f-string is evaluated before the start record is written, and an exception of it
  ends the call before anything is logged or called; \<open>process\<close> is called on the order,
  and an exception of it ends the call; after the result \<open>True\<close> the status of the order,
  as \<open>process\<close> left it, is set to \<open>"paid"\<close>, \<open>send\<close> is called on that order, and an
  exception of it ends the call before the success record; after the result \<open>False\<close> the
  ERROR record is written. The order returned is the order as the last method called
  left it. \<open>fmt\<close> is the formatting of the price: \<open>format_int\<close> for an \<open>int\<close>.
\<close>

definition run_checkout_obj ::
  "('p \<Rightarrow> 'e + string) \<Rightarrow> ('p, 's, 'e) injected \<Rightarrow> 'p Order \<Rightarrow> ('p, 's) state
     \<Rightarrow> ('e + bool) \<times> 'p Order \<times> ('p, 's) state" where
  "run_checkout_obj fmt self order st =
     (case fmt (total_price order) of
        Inl e \<Rightarrow> (Inl e, order, st)
      | Inr tot \<Rightarrow>
          (let st1 = emit (log_info LOGGER
                       (''Memulai checkout untuk '' @ customer_name order @ ''. Total: ''
                          @ tot)) st
           in case process self order (priv st1) of
                (res, order1, out, s1) \<Rightarrow>
                  (let st2 = st1\<lparr>logged := logged st1 @ out, priv := s1,
                                 calls := calls st1 @ [Process order]\<rparr>
                   in case res of
                        Inl e \<Rightarrow> (Inl e, order1, st2)
                      | Inr payment_success \<Rightarrow>
                          if payment_success then
                            (let order2 = order1\<lparr>status := ''paid''\<rparr>
                             in case send self order2 (priv st2) of
                                  (res', order3, out', s2) \<Rightarrow>
                                    (let st3 = st2\<lparr>logged := logged st2 @ out', priv := s2,
                                                   calls := calls st2 @ [Send order2]\<rparr>
                                     in case res' of
                                          Inl e \<Rightarrow> (Inl e, order3, st3)
                                        | Inr _ \<Rightarrow>
                                            (Inr True, order3,
                                             emit (log_info LOGGER
                                               ''Checkout Sukses. Status pesanan: PAID'') st3)))
                          else
                            (Inr False, order1,
                             emit (log_error LOGGER
                               ''Pembayaran gagal. Transaksi dibatalkan.'') st2))))"

section \<open>Properties\<close>

subsection \<open>Auxiliary facts\<close>

lemmas script_defs =
  andi_order_def budi_order_def Order_init_def email_service_def cc_processor_def
  qris_processor_def checkout_cc_def checkout_qris_def init_state_def

lemma sends_append: "sends (cs @ ds) = sends cs @ sends ds"
  by (induction cs rule: sends.induct) simp_all

lemma str_int_500000: "str_int 500000 = ''500000''"
  by (simp add: str_int_def str_nat.simps)

lemma str_int_100000: "str_int 100000 = ''100000''"
  by (simp add: str_int_def str_nat.simps)

text \<open>The two paths of \<open>run_checkout\<close>, each with everything the call leaves behind.\<close>

lemma run_checkout_success:
  assumes "payment_processor self order (priv st) = (True, out, s1)"
    and "notifier self (order\<lparr>status := ''paid''\<rparr>) s1 = (out', s2)"
  shows "run_checkout fmt self order st =
     (True, order\<lparr>status := ''paid''\<rparr>,
      st\<lparr>logged := logged st
            @ [log_info LOGGER (''Memulai checkout untuk '' @ customer_name order
                 @ ''. Total: '' @ fmt (total_price order))]
            @ out @ out'
            @ [log_info LOGGER ''Checkout Sukses. Status pesanan: PAID''],
         priv := s2,
         calls := calls st @ [Process order, Send (order\<lparr>status := ''paid''\<rparr>)]\<rparr>)"
  using assms by (simp add: run_checkout_def call_process_def call_send_def emit_def Let_def)

lemma run_checkout_failure:
  assumes "payment_processor self order (priv st) = (False, out, s1)"
  shows "run_checkout fmt self order st =
     (False, order,
      st\<lparr>logged := logged st
            @ [log_info LOGGER (''Memulai checkout untuk '' @ customer_name order
                 @ ''. Total: '' @ fmt (total_price order))]
            @ out
            @ [log_error LOGGER ''Pembayaran gagal. Transaksi dibatalkan.''],
         priv := s1,
         calls := calls st @ [Process order]\<rparr>)"
  using assms by (simp add: run_checkout_def call_process_def emit_def)

lemma run_checkout_cases:
  obtains (paid) out s1 out' s2 where
      "payment_processor self order (priv st) = (True, out, s1)"
      "notifier self (order\<lparr>status := ''paid''\<rparr>) s1 = (out', s2)"
  | (declined) out s1 where
      "payment_processor self order (priv st) = (False, out, s1)"
proof (cases "payment_processor self order (priv st)")
  case (fields ok out s1)
  show thesis
  proof (cases ok)
    case True
    with fields paid show thesis
      by (cases "notifier self (order\<lparr>status := ''paid''\<rparr>) s1") simp
  next
    case False
    with fields declined show thesis by simp
  qed
qed

lemma run_checkout_order:
  "fst (snd (run_checkout fmt self order st)) =
     (if fst (payment_processor self order (priv st))
      then order\<lparr>status := ''paid''\<rparr> else order)"
proof (rule run_checkout_cases [of self order st])
  fix out s1 out' s2
  assume "payment_processor self order (priv st) = (True, out, s1)"
    and "notifier self (order\<lparr>status := ''paid''\<rparr>) s1 = (out', s2)"
  then show ?thesis by (simp add: run_checkout_success)
next
  fix out s1
  assume "payment_processor self order (priv st) = (False, out, s1)"
  then show ?thesis by (simp add: run_checkout_failure)
qed

text \<open>The runs of the script's two services.\<close>

lemma run_checkout_cc:
  "run_checkout str_int checkout_cc andi_order st =
     (True, \<lparr>customer_name = ''Andi'', total_price = 500000, status = ''paid''\<rparr>,
      st\<lparr>logged := logged st @
           [log_info LOGGER ''Memulai checkout untuk Andi. Total: 500000'',
            log_info LOGGER3 ''Payment: Memproses Kartu Kredit.'',
            log_info LOGGER2 ''Notif: Mengirim email konfirmasi ke Andi.'',
            log_info LOGGER ''Checkout Sukses. Status pesanan: PAID''],
         calls := calls st @
           [Process \<lparr>customer_name = ''Andi'', total_price = 500000, status = ''open''\<rparr>,
            Send \<lparr>customer_name = ''Andi'', total_price = 500000, status = ''paid''\<rparr>]\<rparr>)"
  by (simp add: run_checkout_success
        [where out = "[log_info LOGGER3 ''Payment: Memproses Kartu Kredit.'']"
           and ?out' = "[log_info LOGGER2 ''Notif: Mengirim email konfirmasi ke Andi.'']"
           and ?s1.0 = "priv st" and ?s2.0 = "priv st"]
      script_defs CreditCardProcessor_def EmailNotifier_def str_int_500000)

lemma run_checkout_qris:
  "run_checkout str_int checkout_qris budi_order st =
     (True, \<lparr>customer_name = ''Budi'', total_price = 100000, status = ''paid''\<rparr>,
      st\<lparr>logged := logged st @
           [log_info LOGGER ''Memulai checkout untuk Budi. Total: 100000'',
            log_info LOGGER3 ''Payment: Memproses QRIS.'',
            log_info LOGGER2 ''Notif: Mengirim email konfirmasi ke Budi.'',
            log_info LOGGER ''Checkout Sukses. Status pesanan: PAID''],
         calls := calls st @
           [Process \<lparr>customer_name = ''Budi'', total_price = 100000, status = ''open''\<rparr>,
            Send \<lparr>customer_name = ''Budi'', total_price = 100000, status = ''paid''\<rparr>]\<rparr>)"
  by (simp add: run_checkout_success
        [where out = "[log_info LOGGER3 ''Payment: Memproses QRIS.'']"
           and ?out' = "[log_info LOGGER2 ''Notif: Mengirim email konfirmasi ke Budi.'']"
           and ?s1.0 = "priv st" and ?s2.0 = "priv st"]
      script_defs QrisProcessor_def EmailNotifier_def str_int_100000)

subsection \<open>Auxiliary facts for arbitrary injected objects\<close>

text \<open>
  For methods that only read the order and always return, and a formatting that
  cannot fail, \<open>run_checkout_obj\<close> is \<open>run_checkout\<close>.
\<close>

lemma run_checkout_obj_pure:
  "run_checkout_obj (\<lambda>p. Inr (fmt p)) (as_injected self) order st =
     (case run_checkout fmt self order st of (r, order', st') \<Rightarrow> (Inr r, order', st'))"
  by (simp add: run_checkout_obj_def run_checkout_def as_injected_def as_process_def
      as_send_def call_process_def call_send_def emit_def Let_def split: prod.splits)

text \<open>The five paths of \<open>run_checkout_obj\<close>, each with everything the call leaves behind.\<close>

lemma obj_format_error:
  assumes "fmt (total_price order) = Inl e"
  shows "run_checkout_obj fmt self order st = (Inl e, order, st)"
  using assms by (simp add: run_checkout_obj_def)

lemma obj_process_error:
  assumes "fmt (total_price order) = Inr tot"
    and "process self order (priv st) = (Inl e, order1, out, s1)"
  shows "run_checkout_obj fmt self order st =
     (Inl e, order1,
      st\<lparr>logged := logged st
            @ [log_info LOGGER (''Memulai checkout untuk '' @ customer_name order
                 @ ''. Total: '' @ tot)]
            @ out,
         priv := s1,
         calls := calls st @ [Process order]\<rparr>)"
  using assms by (simp add: run_checkout_obj_def emit_def Let_def)

lemma obj_declined:
  assumes "fmt (total_price order) = Inr tot"
    and "process self order (priv st) = (Inr False, order1, out, s1)"
  shows "run_checkout_obj fmt self order st =
     (Inr False, order1,
      st\<lparr>logged := logged st
            @ [log_info LOGGER (''Memulai checkout untuk '' @ customer_name order
                 @ ''. Total: '' @ tot)]
            @ out
            @ [log_error LOGGER ''Pembayaran gagal. Transaksi dibatalkan.''],
         priv := s1,
         calls := calls st @ [Process order]\<rparr>)"
  using assms by (simp add: run_checkout_obj_def emit_def Let_def)

lemma obj_send_error:
  assumes "fmt (total_price order) = Inr tot"
    and "process self order (priv st) = (Inr True, order1, out, s1)"
    and "send self (order1\<lparr>status := ''paid''\<rparr>) s1 = (Inl e, order2, out', s2)"
  shows "run_checkout_obj fmt self order st =
     (Inl e, order2,
      st\<lparr>logged := logged st
            @ [log_info LOGGER (''Memulai checkout untuk '' @ customer_name order
                 @ ''. Total: '' @ tot)]
            @ out @ out',
         priv := s2,
         calls := calls st @ [Process order, Send (order1\<lparr>status := ''paid''\<rparr>)]\<rparr>)"
  using assms by (simp add: run_checkout_obj_def emit_def Let_def)

lemma obj_paid:
  assumes "fmt (total_price order) = Inr tot"
    and "process self order (priv st) = (Inr True, order1, out, s1)"
    and "send self (order1\<lparr>status := ''paid''\<rparr>) s1 = (Inr u, order2, out', s2)"
  shows "run_checkout_obj fmt self order st =
     (Inr True, order2,
      st\<lparr>logged := logged st
            @ [log_info LOGGER (''Memulai checkout untuk '' @ customer_name order
                 @ ''. Total: '' @ tot)]
            @ out @ out'
            @ [log_info LOGGER ''Checkout Sukses. Status pesanan: PAID''],
         priv := s2,
         calls := calls st @ [Process order, Send (order1\<lparr>status := ''paid''\<rparr>)]\<rparr>)"
  using assms by (simp add: run_checkout_obj_def emit_def Let_def)

lemma run_checkout_obj_cases:
  obtains (format_error) e where "fmt (total_price order) = Inl e"
  | (process_error) tot e order1 out s1 where
      "fmt (total_price order) = Inr tot"
      "process self order (priv st) = (Inl e, order1, out, s1)"
  | (declined) tot order1 out s1 where
      "fmt (total_price order) = Inr tot"
      "process self order (priv st) = (Inr False, order1, out, s1)"
  | (send_error) tot order1 out s1 e order2 out' s2 where
      "fmt (total_price order) = Inr tot"
      "process self order (priv st) = (Inr True, order1, out, s1)"
      "send self (order1\<lparr>status := ''paid''\<rparr>) s1 = (Inl e, order2, out', s2)"
  | (paid) tot order1 out s1 u order2 out' s2 where
      "fmt (total_price order) = Inr tot"
      "process self order (priv st) = (Inr True, order1, out, s1)"
      "send self (order1\<lparr>status := ''paid''\<rparr>) s1 = (Inr u, order2, out', s2)"
proof (cases "fmt (total_price order)")
  case (Inl e)
  then show thesis by (rule format_error)
next
  case (Inr tot)
  note fm = this
  obtain res order1 out s1 where p: "process self order (priv st) = (res, order1, out, s1)"
    by (cases "process self order (priv st)")
  show thesis
  proof (cases res)
    case (Inl e)
    with fm p show thesis by (auto intro: process_error)
  next
    case (Inr ok)
    show thesis
    proof (cases ok)
      case False
      with fm p Inr show thesis by (auto intro: declined)
    next
      case True
      obtain res' order2 out' s2 where
        n: "send self (order1\<lparr>status := ''paid''\<rparr>) s1 = (res', order2, out', s2)"
        by (cases "send self (order1\<lparr>status := ''paid''\<rparr>) s1")
      show thesis
      proof (cases res')
        case (Inl e)
        with fm p \<open>res = Inr ok\<close> True n show thesis by (auto intro: send_error)
      next
        case (Inr u)
        with fm p \<open>res = Inr ok\<close> True n show thesis by (auto intro: paid)
      qed
    qed
  qed
qed




lemma format_int_small:
  assumes "\<bar>i\<bar> < 10 ^ 6"
  shows "format_int i = Inr (str_int i)"
proof -
  have "(10::int) ^ 6 \<le> 10 ^ int_max_str_digits"
    unfolding int_max_str_digits_def by (rule power_increasing) simp_all
  with assms have "\<not> 10 ^ int_max_str_digits \<le> \<bar>i\<bar>"
    by linarith
  then show ?thesis
    by (simp add: format_int_def)
qed

lemma format_int_500000: "format_int 500000 = Inr ''500000''"
  by (simp add: format_int_small str_int_500000)

lemma format_int_100000: "format_int 100000 = Inr ''100000''"
  by (simp add: format_int_small str_int_100000)

lemma format_int_overlong: "format_int overlong_price = Inl ValueError"
proof -
  have "(10::int) ^ n \<le> \<bar>10 ^ n\<bar>" for n
    by simp
  then have "10 ^ int_max_str_digits \<le> \<bar>overlong_price\<bar>"
    by (simp only: overlong_price_def int_max_str_digits_def)
  then show ?thesis
    by (simp add: format_int_def)
qed


lemma keeps_statusD:
  assumes "keeps_status m" and "m order s = (r, order', x)"
  shows "status order' = status order"
  using assms(1) [unfolded keeps_status_def, rule_format, of order s] assms(2) by simp

lemma keeps_orderD:
  assumes "keeps_order m" and "m order s = (r, order', x)"
  shows "order' = order"
  using assms(1) [unfolded keeps_order_def, rule_format, of order s] assms(2) by simp

lemma keeps_order_as_process: "keeps_order (as_process pp)"
  by (simp add: keeps_order_def as_process_def split: prod.splits)

lemma keeps_order_as_send: "keeps_order (as_send nt)"
  by (simp add: keeps_order_def as_send_def split: prod.splits)

lemma keeps_order_status: "keeps_order m \<Longrightarrow> keeps_status m"
  by (simp add: keeps_order_def keeps_status_def)

lemmas obj_defs =
  run_checkout_obj_def as_injected_def as_process_def as_send_def AssigningProcessor_def
  AssigningNotifier_def RaisingProcessor_def RaisingNotifier_def CreditCardProcessor_def
  QrisProcessor_def EmailNotifier_def FixedProcessor_def emit_def Let_def

subsection \<open>The result of a checkout\<close>


text \<open>
  For arbitrary injected objects the same holds when the start message can be formatted
  and the notifier returns: the outcome of \<open>run_checkout\<close> is the outcome of the one
  call of \<open>process\<close>, its exception included.
\<close>

lemma run_checkout_obj_result:
  assumes f: "fmt (total_price order) = Inr tot"
    and returns: "\<And>order' s. \<exists>u. fst (send self order' s) = Inr u"
  shows "fst (run_checkout_obj fmt self order st) = fst (process self order (priv st))"
proof (rule run_checkout_obj_cases [where fmt = fmt and order = order and self = self and st = st])
  fix e
  assume "fmt (total_price order) = Inl e"
  with f show ?thesis by simp
next
  fix tot' e order1 out s1
  assume f': "fmt (total_price order) = Inr tot'"
    and p: "process self order (priv st) = (Inl e, order1, out, s1)"
  show ?thesis
    unfolding obj_process_error [where fmt = fmt and order = order and self = self and st = st,
      OF f' p] using p by simp
next
  fix tot' order1 out s1
  assume f': "fmt (total_price order) = Inr tot'"
    and p: "process self order (priv st) = (Inr False, order1, out, s1)"
  show ?thesis
    unfolding obj_declined [where fmt = fmt and order = order and self = self and st = st,
      OF f' p] using p by simp
next
  fix tot' order1 out s1 e order2 out' s2
  assume n: "send self (order1\<lparr>status := ''paid''\<rparr>) s1 = (Inl e, order2, out', s2)"
  with returns [of "order1\<lparr>status := ''paid''\<rparr>" s1] show ?thesis by simp
next
  fix tot' order1 out s1 u order2 out' s2
  assume f': "fmt (total_price order) = Inr tot'"
    and p: "process self order (priv st) = (Inr True, order1, out, s1)"
    and n: "send self (order1\<lparr>status := ''paid''\<rparr>) s1 = (Inr u, order2, out', s2)"
  show ?thesis
    unfolding obj_paid [where fmt = fmt and order = order and self = self and st = st,
      OF f' p n] using p by simp
qed

text \<open>
  C2, under the conditions it needs: for every order, when \<open>run_checkout\<close> returns \<open>True\<close> and the
  notifier's \<open>send\<close> does not assign to the status of an order, the status of the
  order is \<open>"paid"\<close> after the call; when \<open>run_checkout\<close> returns \<open>False\<close> and the
  processor's \<open>process\<close> does not assign to the status of an order, the status is what
  it was before the call (\<open>"open"\<close> for an order that started as \<open>"open"\<close>).
\<close>

theorem run_checkout_obj_status:
  "(case run_checkout_obj fmt self order st of
      (r, order', st') \<Rightarrow>
        (r = Inr True \<longrightarrow> keeps_status (send self) \<longrightarrow> status order' = ''paid'') \<and>
        (r = Inr False \<longrightarrow> keeps_status (process self) \<longrightarrow> status order' = status order))"
proof (rule run_checkout_obj_cases [where fmt = fmt and order = order and self = self and st = st])
  fix e
  assume f: "fmt (total_price order) = Inl e"
  show ?thesis
    by (simp add: obj_format_error [where fmt = fmt and order = order, OF f])
next
  fix tot e order1 out s1
  assume f: "fmt (total_price order) = Inr tot"
    and p: "process self order (priv st) = (Inl e, order1, out, s1)"
  show ?thesis
    by (simp add: obj_process_error [where fmt = fmt and order = order and self = self and st = st, OF f p])
next
  fix tot order1 out s1
  assume f: "fmt (total_price order) = Inr tot"
    and p: "process self order (priv st) = (Inr False, order1, out, s1)"
  have "status order1 = status order" if "keeps_status (process self)"
    using that p by (rule keeps_statusD)
  then show ?thesis
    unfolding obj_declined [where fmt = fmt and order = order and self = self and st = st, OF f p] prod.case by simp
next
  fix tot order1 out s1 e order2 out' s2
  assume f: "fmt (total_price order) = Inr tot"
    and p: "process self order (priv st) = (Inr True, order1, out, s1)"
    and n: "send self (order1\<lparr>status := ''paid''\<rparr>) s1 = (Inl e, order2, out', s2)"
  show ?thesis
    by (simp add: obj_send_error [where fmt = fmt and order = order and self = self and st = st, OF f p n])
next
  fix tot order1 out s1 u order2 out' s2
  assume f: "fmt (total_price order) = Inr tot"
    and p: "process self order (priv st) = (Inr True, order1, out, s1)"
    and n: "send self (order1\<lparr>status := ''paid''\<rparr>) s1 = (Inr u, order2, out', s2)"
  have "status order2 = ''paid''" if "keeps_status (send self)"
  proof -
    have "status order2 = status (order1\<lparr>status := ''paid''\<rparr>)"
      using that n by (rule keeps_statusD)
    then show ?thesis by simp
  qed
  then show ?thesis
    unfolding obj_paid [where fmt = fmt and order = order and self = self and st = st, OF f p n] prod.case by simp
qed

text \<open>
  The claim without the two conditions fails: with a notifier that assigns \<open>"open"\<close>
  to the status, the checkout of Andi's order by credit card returns \<open>True\<close> and leaves
  a status that is not \<open>"paid"\<close>; with a processor that assigns \<open>"void"\<close> to the status
  and declines, the checkout returns \<open>False\<close> and the status has changed from
  \<open>"open"\<close> to \<open>"void"\<close>.
\<close>

theorem run_checkout_obj_status_counterexample:
  "fst (run_checkout_obj format_int
          \<lparr>process = as_process CreditCardProcessor,
             send = AssigningNotifier (\<lambda>order. order\<lparr>status := ''open''\<rparr>)\<rparr>
          andi_order init_state) = Inr True
   \<and> status (fst (snd (run_checkout_obj format_int
          \<lparr>process = as_process CreditCardProcessor,
             send = AssigningNotifier (\<lambda>order. order\<lparr>status := ''open''\<rparr>)\<rparr>
          andi_order init_state))) \<noteq> ''paid''
   \<and> status andi_order = ''open''
   \<and> fst (run_checkout_obj format_int
          \<lparr>process = AssigningProcessor (\<lambda>order. order\<lparr>status := ''void''\<rparr>) False,
             send = as_send EmailNotifier\<rparr>
          andi_order init_state) = Inr False
   \<and> status (fst (snd (run_checkout_obj format_int
          \<lparr>process = AssigningProcessor (\<lambda>order. order\<lparr>status := ''void''\<rparr>) False,
             send = as_send EmailNotifier\<rparr>
          andi_order init_state))) = ''void''"
  by (simp add: obj_defs script_defs format_int_500000)

text \<open>
  The conditions hold of the file's objects: the checkout of Andi's order by credit card,
  and a declined checkout of it.
\<close>

theorem run_checkout_obj_status_witness:
  "fst (run_checkout_obj format_int (as_injected checkout_cc) andi_order init_state) = Inr True
   \<and> keeps_status (send (as_injected checkout_cc :: (int, unit, py_error) injected))
   \<and> status (fst (snd (run_checkout_obj format_int (as_injected checkout_cc)
        andi_order init_state))) = ''paid''
   \<and> fst (run_checkout_obj format_int
        \<lparr>process = as_process (FixedProcessor False), send = as_send email_service\<rparr>
        andi_order init_state) = Inr False
   \<and> keeps_status (process (\<lparr>process = as_process (FixedProcessor False),
        send = as_send email_service\<rparr> :: (int, unit, py_error) injected))
   \<and> status andi_order = ''open''
   \<and> status (fst (snd (run_checkout_obj format_int
        \<lparr>process = as_process (FixedProcessor False), send = as_send email_service\<rparr>
        andi_order init_state))) = ''open''"
proof -
  have r1: "fst (run_checkout_obj format_int (as_injected checkout_cc) andi_order init_state)
      = Inr True"
    by (simp add: obj_defs script_defs format_int_500000)
  have k1: "keeps_status (send (as_injected checkout_cc :: (int, unit, py_error) injected))"
    by (simp add: as_injected_def keeps_order_status keeps_order_as_send)
  have r2: "fst (run_checkout_obj format_int
        \<lparr>process = as_process (FixedProcessor False), send = as_send email_service\<rparr>
        andi_order init_state) = Inr False"
    by (simp add: obj_defs script_defs format_int_500000)
  have k2: "keeps_status (process (\<lparr>process = as_process (FixedProcessor False),
        send = as_send email_service\<rparr> :: (int, unit, py_error) injected))"
    by (simp add: keeps_order_status keeps_order_as_process)
  have o: "status andi_order = ''open''"
    by (simp add: script_defs)
  show ?thesis
    using r1 k1 r2 k2 o
      run_checkout_obj_status [where fmt = format_int
        and self = "as_injected checkout_cc :: (int, unit, py_error) injected"
        and order = andi_order and st = init_state]
      run_checkout_obj_status [where fmt = format_int
        and self = "\<lparr>process = as_process (FixedProcessor False),
          send = as_send email_service\<rparr> :: (int, unit, py_error) injected"
        and order = andi_order and st = init_state]
    by (simp split: prod.splits)
qed

subsection \<open>The calls on the notifier\<close>

text \<open>
  C3: in one call of \<open>run_checkout\<close> the notifier's \<open>send\<close> is called exactly once
  when the payment processor returns \<open>True\<close> and not at all when it returns \<open>False\<close>,
  and on the successful path \<open>send\<close> is called after the assignment of \<open>"paid"\<close> to
  the status. With \<open>process\<close> returning \<open>ok\<close> and leaving \<open>order1\<close>, and
  \<open>(res, order2, out', s2)\<close> what \<open>send\<close> returns on \<open>order1\<close> with the status
  \<open>"paid"\<close> in the state \<open>process\<close> left: after \<open>True\<close> the call leaves exactly what
  that one application of \<open>send\<close> returns (its order, its log records \<open>out'\<close> once, its
  state \<open>s2\<close>, its exception if it raised one) and records the one call; after \<open>False\<close>
  it leaves the order, the log and the state as \<open>process\<close> left them, with nothing of
  \<open>send\<close> and no call of it.
\<close>

theorem run_checkout_obj_sends:
  assumes f: "fmt (total_price order) = Inr tot"
    and p: "process self order (priv st) = (Inr ok, order1, out, s1)"
    and n: "send self (order1\<lparr>status := ''paid''\<rparr>) s1 = (res, order2, out', s2)"
  shows "run_checkout_obj fmt self order st =
     (if ok then
        (case res of Inl e \<Rightarrow> Inl e | Inr u \<Rightarrow> Inr True, order2,
         st\<lparr>logged := logged st
               @ [log_info LOGGER (''Memulai checkout untuk '' @ customer_name order
                    @ ''. Total: '' @ tot)]
               @ out @ out'
               @ (case res of
                    Inl e \<Rightarrow> []
                  | Inr u \<Rightarrow> [log_info LOGGER ''Checkout Sukses. Status pesanan: PAID'']),
            priv := s2,
            calls := calls st @ [Process order, Send (order1\<lparr>status := ''paid''\<rparr>)]\<rparr>)
      else
        (Inr False, order1,
         st\<lparr>logged := logged st
               @ [log_info LOGGER (''Memulai checkout untuk '' @ customer_name order
                    @ ''. Total: '' @ tot)]
               @ out
               @ [log_error LOGGER ''Pembayaran gagal. Transaksi dibatalkan.''],
            priv := s1,
            calls := calls st @ [Process order]\<rparr>))
   \<and> sends (calls (snd (snd (run_checkout_obj fmt self order st)))) =
       sends (calls st) @ (if ok then [order1\<lparr>status := ''paid''\<rparr>] else [])"
proof (cases ok)
  case False
  with p have p': "process self order (priv st) = (Inr False, order1, out, s1)"
    by simp
  show ?thesis
    unfolding obj_declined [where fmt = fmt and order = order and self = self and st = st, OF  f p'] using False by (simp add: sends_append)
next
  case True
  with p have p': "process self order (priv st) = (Inr True, order1, out, s1)"
    by simp
  show ?thesis
  proof (cases res)
    case (Inl e)
    with n have n': "send self (order1\<lparr>status := ''paid''\<rparr>) s1 = (Inl e, order2, out', s2)"
      by simp
    show ?thesis
      unfolding obj_send_error [where fmt = fmt and order = order and self = self and st = st, OF  f p' n'] using True Inl by (simp add: sends_append)
  next
    case (Inr u)
    with n have n': "send self (order1\<lparr>status := ''paid''\<rparr>) s1 = (Inr u, order2, out', s2)"
      by simp
    show ?thesis
      unfolding obj_paid [where fmt = fmt and order = order and self = self and st = st, OF  f p' n'] using True Inr by (simp add: sends_append)
  qed
qed

theorem run_checkout_obj_sends_witness:
  "format_int (total_price andi_order) = Inr ''500000''
   \<and> process (as_injected checkout_cc) andi_order (priv init_state) =
       (Inr True, andi_order,
        [log_info LOGGER3 ''Payment: Memproses Kartu Kredit.''], ())
   \<and> send (as_injected checkout_cc) (andi_order\<lparr>status := ''paid''\<rparr>) () =
       (Inr (), andi_order\<lparr>status := ''paid''\<rparr>,
        [log_info LOGGER2 ''Notif: Mengirim email konfirmasi ke Andi.''], ())
   \<and> run_checkout_obj format_int (as_injected checkout_cc) andi_order init_state =
       (Inr True, andi_order\<lparr>status := ''paid''\<rparr>,
        \<lparr>logged =
           [log_info LOGGER ''Memulai checkout untuk Andi. Total: 500000'',
            log_info LOGGER3 ''Payment: Memproses Kartu Kredit.'',
            log_info LOGGER2 ''Notif: Mengirim email konfirmasi ke Andi.'',
            log_info LOGGER ''Checkout Sukses. Status pesanan: PAID''],
         stdout = [], priv = (),
         calls = [Process andi_order, Send (andi_order\<lparr>status := ''paid''\<rparr>)]\<rparr>)
   \<and> sends (calls (snd (snd (run_checkout_obj format_int (as_injected checkout_cc)
         andi_order init_state)))) = [andi_order\<lparr>status := ''paid''\<rparr>]
   \<and> process \<lparr>process = as_process (FixedProcessor False), send = as_send email_service\<rparr>
         andi_order (priv init_state) = (Inr False, andi_order, [], ())
   \<and> run_checkout_obj format_int
         \<lparr>process = as_process (FixedProcessor False), send = as_send email_service\<rparr>
         andi_order init_state =
       (Inr False, andi_order,
        \<lparr>logged =
           [log_info LOGGER ''Memulai checkout untuk Andi. Total: 500000'',
            log_error LOGGER ''Pembayaran gagal. Transaksi dibatalkan.''],
         stdout = [], priv = (), calls = [Process andi_order]\<rparr>)
   \<and> sends (calls (snd (snd (run_checkout_obj format_int
         \<lparr>process = as_process (FixedProcessor False), send = as_send email_service\<rparr>
         andi_order init_state)))) = []"
proof -
  have f: "format_int (total_price andi_order) = Inr ''500000''"
    by (simp add: script_defs format_int_500000)
  have p: "process (as_injected checkout_cc) andi_order (priv init_state) =
      (Inr True, andi_order, [log_info LOGGER3 ''Payment: Memproses Kartu Kredit.''], ())"
    by (simp add: obj_defs script_defs)
  have n: "send (as_injected checkout_cc) (andi_order\<lparr>status := ''paid''\<rparr>) () =
      (Inr (), andi_order\<lparr>status := ''paid''\<rparr>,
       [log_info LOGGER2 ''Notif: Mengirim email konfirmasi ke Andi.''], ())"
    by (simp add: obj_defs script_defs)
  have i: "init_state = \<lparr>logged = [], stdout = [], priv = (), calls = []\<rparr>"
    by (rule init_state_def)
  have c: "customer_name andi_order = ''Andi''"
    by (simp add: script_defs)
  have p2: "process \<lparr>process = as_process (FixedProcessor False), send = as_send email_service\<rparr>
      andi_order (priv init_state) = (Inr False, andi_order, [], ())"
    by (simp add: obj_defs script_defs)
  have n2: "send \<lparr>process = as_process (FixedProcessor False), send = as_send email_service\<rparr>
      (andi_order\<lparr>status := ''paid''\<rparr>) () =
      (Inr (), andi_order\<lparr>status := ''paid''\<rparr>,
       [log_info LOGGER2 ''Notif: Mengirim email konfirmasi ke Andi.''], ())"
    by (simp add: obj_defs script_defs)
  show ?thesis
    using f p n p2
      run_checkout_obj_sends [where fmt = format_int
        and self = "as_injected checkout_cc" and order = andi_order and st = init_state,
        OF f p n]
      run_checkout_obj_sends [where fmt = format_int
        and self = "\<lparr>process = as_process (FixedProcessor False),
          send = as_send email_service\<rparr>"
        and order = andi_order and st = init_state, OF f p2 n2]
    by (simp add: i c)
qed

subsection \<open>What a checkout changes\<close>

text \<open>
  C4, under the condition it needs: when the injected \<open>process\<close> and \<open>send\<close> do not assign to the
  order, \<open>run_checkout\<close> changes no field of the order but \<open>status\<close>: the customer
  name and the price are the same after every call, and when the payment processor
  returns \<open>False\<close> the whole order, status included, is as it was.
\<close>

theorem run_checkout_obj_frame:
  assumes kp: "keeps_order (process self)"
    and kn: "keeps_order (send self)"
  shows "(case run_checkout_obj fmt self order st of
      (r, order', st') \<Rightarrow>
        customer_name order' = customer_name order
        \<and> total_price order' = total_price order
        \<and> order' = order\<lparr>status := status order'\<rparr>
        \<and> (fst (process self order (priv st)) = Inr False \<longrightarrow> order' = order))"
proof (rule run_checkout_obj_cases [where fmt = fmt and order = order and self = self and st = st])
  fix e
  assume f: "fmt (total_price order) = Inl e"
  show ?thesis
    unfolding obj_format_error [where fmt = fmt and order = order, OF f] prod.case by simp
next
  fix tot e order1 out s1
  assume f: "fmt (total_price order) = Inr tot"
    and p: "process self order (priv st) = (Inl e, order1, out, s1)"
  have "order1 = order"
    using kp p by (rule keeps_orderD)
  then show ?thesis
    unfolding obj_process_error [where fmt = fmt and order = order and self = self and st = st, OF  f p] prod.case using p by simp
next
  fix tot order1 out s1
  assume f: "fmt (total_price order) = Inr tot"
    and p: "process self order (priv st) = (Inr False, order1, out, s1)"
  have "order1 = order"
    using kp p by (rule keeps_orderD)
  then show ?thesis
    unfolding obj_declined [where fmt = fmt and order = order and self = self and st = st, OF  f p] prod.case by simp
next
  fix tot order1 out s1 e order2 out' s2
  assume f: "fmt (total_price order) = Inr tot"
    and p: "process self order (priv st) = (Inr True, order1, out, s1)"
    and n: "send self (order1\<lparr>status := ''paid''\<rparr>) s1 = (Inl e, order2, out', s2)"
  have "order1 = order"
    using kp p by (rule keeps_orderD)
  moreover have "order2 = order1\<lparr>status := ''paid''\<rparr>"
    using kn n by (rule keeps_orderD)
  ultimately show ?thesis
    unfolding obj_send_error [where fmt = fmt and order = order and self = self and st = st, OF  f p n] prod.case using p by simp
next
  fix tot order1 out s1 u order2 out' s2
  assume f: "fmt (total_price order) = Inr tot"
    and p: "process self order (priv st) = (Inr True, order1, out, s1)"
    and n: "send self (order1\<lparr>status := ''paid''\<rparr>) s1 = (Inr u, order2, out', s2)"
  have "order1 = order"
    using kp p by (rule keeps_orderD)
  moreover have "order2 = order1\<lparr>status := ''paid''\<rparr>"
    using kn n by (rule keeps_orderD)
  ultimately show ?thesis
    unfolding obj_paid [where fmt = fmt and order = order and self = self and st = st, OF  f p n] prod.case using p by simp
qed

text \<open>
  The claim without the condition fails: a processor that assigns to the customer name
  and to the price and then declines leaves the caller's order with the new name and
  price, on the path of the result \<open>False\<close>.
\<close>

theorem run_checkout_obj_frame_counterexample:
  "fst (AssigningProcessor (\<lambda>order. order\<lparr>customer_name := ''Eve'', total_price := 0\<rparr>) False
          andi_order (priv init_state) :: (py_error + bool) \<times> int Order \<times> log_record list \<times> unit)
     = Inr False
   \<and> run_checkout_obj format_int
          \<lparr>process = AssigningProcessor
               (\<lambda>order. order\<lparr>customer_name := ''Eve'', total_price := 0\<rparr>) False,
             send = as_send EmailNotifier\<rparr>
          andi_order init_state =
       (Inr False, \<lparr>customer_name = ''Eve'', total_price = 0, status = ''open''\<rparr>,
        \<lparr>logged =
           [log_info LOGGER ''Memulai checkout untuk Andi. Total: 500000'',
            log_error LOGGER ''Pembayaran gagal. Transaksi dibatalkan.''],
         stdout = [], priv = (), calls = [Process andi_order]\<rparr>)
   \<and> andi_order = \<lparr>customer_name = ''Andi'', total_price = 500000, status = ''open''\<rparr>"
  by (simp add: obj_defs script_defs format_int_500000)

text \<open>
  The condition holds of the file's objects: the checkout of Andi's order by credit card,
  and a declined checkout of it.
\<close>

theorem run_checkout_obj_frame_witness:
  "keeps_order (process (as_injected checkout_cc :: (int, unit, py_error) injected))
   \<and> keeps_order (send (as_injected checkout_cc :: (int, unit, py_error) injected))
   \<and> fst (snd (run_checkout_obj format_int (as_injected checkout_cc) andi_order init_state))
       = andi_order\<lparr>status := ''paid''\<rparr>
   \<and> keeps_order (process (\<lparr>process = as_process (FixedProcessor False),
         send = as_send email_service\<rparr> :: (int, unit, py_error) injected))
   \<and> keeps_order (send (\<lparr>process = as_process (FixedProcessor False),
         send = as_send email_service\<rparr> :: (int, unit, py_error) injected))
   \<and> fst (process (\<lparr>process = as_process (FixedProcessor False),
         send = as_send email_service\<rparr> :: (int, unit, py_error) injected)
         andi_order (priv init_state)) = Inr False
   \<and> fst (snd (run_checkout_obj format_int
         \<lparr>process = as_process (FixedProcessor False), send = as_send email_service\<rparr>
         andi_order init_state)) = andi_order"
proof -
  have k1: "keeps_order (process (as_injected checkout_cc :: (int, unit, py_error) injected))"
    by (simp add: as_injected_def keeps_order_as_process)
  have k2: "keeps_order (send (as_injected checkout_cc :: (int, unit, py_error) injected))"
    by (simp add: as_injected_def keeps_order_as_send)
  have k3: "keeps_order (process (\<lparr>process = as_process (FixedProcessor False),
      send = as_send email_service\<rparr> :: (int, unit, py_error) injected))"
    by (simp add: keeps_order_as_process)
  have k4: "keeps_order (send (\<lparr>process = as_process (FixedProcessor False),
      send = as_send email_service\<rparr> :: (int, unit, py_error) injected))"
    by (simp add: keeps_order_as_send)
  have r1: "fst (run_checkout_obj format_int (as_injected checkout_cc) andi_order init_state)
      = Inr True"
    by (simp add: obj_defs script_defs format_int_500000)
  have d: "fst (process (\<lparr>process = as_process (FixedProcessor False),
      send = as_send email_service\<rparr> :: (int, unit, py_error) injected)
      andi_order (priv init_state)) = Inr False"
    by (simp add: obj_defs)
  have paid: "status (fst (snd (run_checkout_obj format_int (as_injected checkout_cc)
      andi_order init_state))) = ''paid''"
    by (simp add: obj_defs script_defs format_int_500000)
  show ?thesis
    using k1 k2 k3 k4 d paid
      run_checkout_obj_frame [OF k1 k2, where fmt = format_int and order = andi_order
        and st = init_state]
      run_checkout_obj_frame [OF k3 k4, where fmt = format_int and order = andi_order
        and st = init_state]
    by (simp split: prod.splits)
qed

subsection \<open>Failures\<close>

text \<open>
  C5, within its limits: for every order whose start message can be formatted, a payment
  failure (\<open>process\<close> returns \<open>False\<close>) is absorbed inside the coordinator:
  \<open>run_checkout\<close> raises nothing, returns \<open>False\<close>, writes one record of level ERROR
  and does not call the notifier. \<open>run_checkout\<close> absorbs nothing else: an exception
  raised by the formatting of the start message, by \<open>process\<close> or by \<open>send\<close> is the
  outcome of \<open>run_checkout\<close>; when none of the three raises, the outcome is the boolean.
\<close>

theorem run_checkout_obj_failures:
  "(fmt (total_price order) = Inr tot \<longrightarrow>
    process self order (priv st) = (Inr False, order1, out, s1) \<longrightarrow>
      run_checkout_obj fmt self order st =
        (Inr False, order1,
         st\<lparr>logged := logged st
               @ [log_info LOGGER (''Memulai checkout untuk '' @ customer_name order
                    @ ''. Total: '' @ tot)]
               @ out
               @ [log_error LOGGER ''Pembayaran gagal. Transaksi dibatalkan.''],
            priv := s1,
            calls := calls st @ [Process order]\<rparr>))
   \<and> (fmt (total_price order) = Inl e \<longrightarrow>
        run_checkout_obj fmt self order st = (Inl e, order, st))
   \<and> (fmt (total_price order) = Inr tot \<longrightarrow>
      process self order (priv st) = (Inl e, order1, out, s1) \<longrightarrow>
        fst (run_checkout_obj fmt self order st) = Inl e)
   \<and> (fmt (total_price order) = Inr tot \<longrightarrow>
      process self order (priv st) = (Inr True, order1, out, s1) \<longrightarrow>
      send self (order1\<lparr>status := ''paid''\<rparr>) s1 = (Inl e, order2, out', s2) \<longrightarrow>
        fst (run_checkout_obj fmt self order st) = Inl e)
   \<and> (fmt (total_price order) = Inr tot \<longrightarrow>
      process self order (priv st) = (Inr True, order1, out, s1) \<longrightarrow>
      send self (order1\<lparr>status := ''paid''\<rparr>) s1 = (Inr u, order2, out', s2) \<longrightarrow>
        fst (run_checkout_obj fmt self order st) = Inr True)"
proof (intro conjI impI)
  assume f: "fmt (total_price order) = Inr tot"
    and p: "process self order (priv st) = (Inr False, order1, out, s1)"
  show "run_checkout_obj fmt self order st =
        (Inr False, order1,
         st\<lparr>logged := logged st
               @ [log_info LOGGER (''Memulai checkout untuk '' @ customer_name order
                    @ ''. Total: '' @ tot)]
               @ out
               @ [log_error LOGGER ''Pembayaran gagal. Transaksi dibatalkan.''],
            priv := s1,
            calls := calls st @ [Process order]\<rparr>)"
    using f p by (rule obj_declined)
next
  assume f: "fmt (total_price order) = Inl e"
  show "run_checkout_obj fmt self order st = (Inl e, order, st)"
    using f by (rule obj_format_error)
next
  assume f: "fmt (total_price order) = Inr tot"
    and p: "process self order (priv st) = (Inl e, order1, out, s1)"
  show "fst (run_checkout_obj fmt self order st) = Inl e"
    unfolding obj_process_error [where fmt = fmt and order = order and self = self and st = st, OF  f p] by simp
next
  assume f: "fmt (total_price order) = Inr tot"
    and p: "process self order (priv st) = (Inr True, order1, out, s1)"
    and n: "send self (order1\<lparr>status := ''paid''\<rparr>) s1 = (Inl e, order2, out', s2)"
  show "fst (run_checkout_obj fmt self order st) = Inl e"
    unfolding obj_send_error [where fmt = fmt and order = order and self = self and st = st, OF  f p n] by simp
next
  assume f: "fmt (total_price order) = Inr tot"
    and p: "process self order (priv st) = (Inr True, order1, out, s1)"
    and n: "send self (order1\<lparr>status := ''paid''\<rparr>) s1 = (Inr u, order2, out', s2)"
  show "fst (run_checkout_obj fmt self order st) = Inr True"
    unfolding obj_paid [where fmt = fmt and order = order and self = self and st = st, OF  f p n] by simp
qed

text \<open>
  The claim that \<open>run_checkout\<close> never raises fails with the file's own objects: for
  an order with a price of 4301 digits the credit card service raises \<open>ValueError\<close>
  at the start message, before anything is logged or called. And an exception raised by
  an injected processor crosses \<open>run_checkout\<close>.
\<close>

theorem run_checkout_obj_failures_counterexample:
  "overlong_price = 10 ^ 4300
   \<and> overlong_order = Order_init ''Andi'' overlong_price None
   \<and> run_checkout_obj format_int (as_injected checkout_cc) overlong_order init_state =
       (Inl ValueError, overlong_order, init_state)
   \<and> run_checkout_obj format_int
         \<lparr>process = RaisingProcessor RuntimeError, send = as_send email_service\<rparr>
         andi_order init_state =
       (Inl RuntimeError, andi_order,
        \<lparr>logged = [log_info LOGGER ''Memulai checkout untuk Andi. Total: 500000''],
         stdout = [], priv = (), calls = [Process andi_order]\<rparr>)"
proof -
  have a: "overlong_price = 10 ^ 4300"
    by (rule overlong_price_def)
  have b: "overlong_order = Order_init ''Andi'' overlong_price None"
    by (rule overlong_order_def)
  have "total_price overlong_order = overlong_price"
    by (simp add: overlong_order_def Order_init_def)
  then have "format_int (total_price overlong_order) = Inl ValueError"
    by (simp add: format_int_overlong)
  then have c: "run_checkout_obj format_int (as_injected checkout_cc) overlong_order init_state =
      (Inl ValueError, overlong_order, init_state)"
    by (rule obj_format_error)
  have d: "run_checkout_obj format_int
      \<lparr>process = RaisingProcessor RuntimeError, send = as_send email_service\<rparr>
      andi_order init_state =
      (Inl RuntimeError, andi_order,
       \<lparr>logged = [log_info LOGGER ''Memulai checkout untuk Andi. Total: 500000''],
        stdout = [], priv = (), calls = [Process andi_order]\<rparr>)"
    by (simp add: obj_defs script_defs format_int_500000)
  show ?thesis
    using a b c d by (intro conjI)
qed

text \<open>
  The five paths on concrete input: a declined payment, the overlong price, a raising
  processor, a raising notifier, and the checkout of Andi's order by credit card.
\<close>

theorem run_checkout_obj_failures_witness:
  "format_int (total_price andi_order) = Inr ''500000''
   \<and> process \<lparr>process = as_process (FixedProcessor False), send = as_send email_service\<rparr>
         andi_order (priv init_state) = (Inr False, andi_order, [], ())
   \<and> run_checkout_obj format_int
         \<lparr>process = as_process (FixedProcessor False), send = as_send email_service\<rparr>
         andi_order init_state =
       (Inr False, andi_order,
        \<lparr>logged =
           [log_info LOGGER ''Memulai checkout untuk Andi. Total: 500000'',
            log_error LOGGER ''Pembayaran gagal. Transaksi dibatalkan.''],
         stdout = [], priv = (), calls = [Process andi_order]\<rparr>)
   \<and> format_int (total_price overlong_order) = Inl ValueError
   \<and> run_checkout_obj format_int (as_injected checkout_cc) overlong_order init_state =
       (Inl ValueError, overlong_order, init_state)
   \<and> process \<lparr>process = RaisingProcessor RuntimeError, send = as_send email_service\<rparr>
         andi_order (priv init_state) = (Inl RuntimeError, andi_order, [], ())
   \<and> fst (run_checkout_obj format_int
         \<lparr>process = RaisingProcessor RuntimeError, send = as_send email_service\<rparr>
         andi_order init_state) = Inl RuntimeError
   \<and> process \<lparr>process = as_process cc_processor, send = RaisingNotifier RuntimeError\<rparr>
         andi_order (priv init_state) =
       (Inr True, andi_order, [log_info LOGGER3 ''Payment: Memproses Kartu Kredit.''], ())
   \<and> send \<lparr>process = as_process cc_processor, send = RaisingNotifier RuntimeError\<rparr>
         (andi_order\<lparr>status := ''paid''\<rparr>) () =
       (Inl RuntimeError, andi_order\<lparr>status := ''paid''\<rparr>, [], ())
   \<and> fst (run_checkout_obj format_int
         \<lparr>process = as_process cc_processor, send = RaisingNotifier RuntimeError\<rparr>
         andi_order init_state) = Inl RuntimeError
   \<and> process (as_injected checkout_cc) andi_order (priv init_state) =
       (Inr True, andi_order, [log_info LOGGER3 ''Payment: Memproses Kartu Kredit.''], ())
   \<and> send (as_injected checkout_cc) (andi_order\<lparr>status := ''paid''\<rparr>) () =
       (Inr (), andi_order\<lparr>status := ''paid''\<rparr>,
        [log_info LOGGER2 ''Notif: Mengirim email konfirmasi ke Andi.''], ())
   \<and> fst (run_checkout_obj format_int (as_injected checkout_cc) andi_order init_state)
       = Inr True"
proof -
  have f: "format_int (total_price andi_order) = Inr ''500000''"
    by (simp add: script_defs format_int_500000)
  have fo: "format_int (total_price overlong_order) = Inl ValueError"
    by (simp add: overlong_order_def Order_init_def format_int_overlong)
  have i: "init_state = \<lparr>logged = [], stdout = [], priv = (), calls = []\<rparr>"
    by (rule init_state_def)
  have c: "customer_name andi_order = ''Andi''"
    by (simp add: script_defs)
  have p1: "process \<lparr>process = as_process (FixedProcessor False), send = as_send email_service\<rparr>
      andi_order (priv init_state) = (Inr False, andi_order, [], ())"
    by (simp add: obj_defs script_defs)
  have p3: "process \<lparr>process = RaisingProcessor RuntimeError, send = as_send email_service\<rparr>
      andi_order (priv init_state) = (Inl RuntimeError, andi_order, [], ())"
    by (simp add: obj_defs script_defs)
  have p4: "process \<lparr>process = as_process cc_processor, send = RaisingNotifier RuntimeError\<rparr>
      andi_order (priv init_state) =
      (Inr True, andi_order, [log_info LOGGER3 ''Payment: Memproses Kartu Kredit.''], ())"
    by (simp add: obj_defs script_defs)
  have n4: "send \<lparr>process = as_process cc_processor, send = RaisingNotifier RuntimeError\<rparr>
      (andi_order\<lparr>status := ''paid''\<rparr>) () =
      (Inl RuntimeError, andi_order\<lparr>status := ''paid''\<rparr>, [], ())"
    by (simp add: obj_defs)
  have p5: "process (as_injected checkout_cc) andi_order (priv init_state) =
      (Inr True, andi_order, [log_info LOGGER3 ''Payment: Memproses Kartu Kredit.''], ())"
    by (simp add: obj_defs script_defs)
  have n5: "send (as_injected checkout_cc) (andi_order\<lparr>status := ''paid''\<rparr>) () =
      (Inr (), andi_order\<lparr>status := ''paid''\<rparr>,
       [log_info LOGGER2 ''Notif: Mengirim email konfirmasi ke Andi.''], ())"
    by (simp add: obj_defs script_defs)
  have r1: "run_checkout_obj format_int
      \<lparr>process = as_process (FixedProcessor False), send = as_send email_service\<rparr>
      andi_order init_state =
      (Inr False, andi_order,
       \<lparr>logged =
          [log_info LOGGER ''Memulai checkout untuk Andi. Total: 500000'',
           log_error LOGGER ''Pembayaran gagal. Transaksi dibatalkan.''],
        stdout = [], priv = (), calls = [Process andi_order]\<rparr>)"
    using run_checkout_obj_failures [where fmt = format_int
        and self = "\<lparr>process = as_process (FixedProcessor False),
          send = as_send email_service\<rparr>"
        and order = andi_order and st = init_state and tot = "''500000''"
        and ?order1.0 = andi_order and out = "[]" and ?s1.0 = "()", THEN conjunct1,
        rule_format, OF f p1]
    by (simp add: i c)
  have r2: "run_checkout_obj format_int (as_injected checkout_cc) overlong_order init_state =
      (Inl ValueError, overlong_order, init_state)"
    using run_checkout_obj_failures [where fmt = format_int
        and self = "as_injected checkout_cc"
        and order = overlong_order and st = init_state and e = ValueError, THEN conjunct2, THEN conjunct1,
        rule_format, OF fo]
    by simp
  have r3: "fst (run_checkout_obj format_int
      \<lparr>process = RaisingProcessor RuntimeError, send = as_send email_service\<rparr>
      andi_order init_state) = Inl RuntimeError"
    using run_checkout_obj_failures [where fmt = format_int
        and self = "\<lparr>process = RaisingProcessor RuntimeError, send = as_send email_service\<rparr>"
        and order = andi_order and st = init_state and tot = "''500000''"
        and e = RuntimeError and ?order1.0 = andi_order and out = "[]" and ?s1.0 = "()", THEN conjunct2, THEN conjunct2, THEN conjunct1,
        rule_format, OF f p3]
    by simp
  have r4: "fst (run_checkout_obj format_int
      \<lparr>process = as_process cc_processor, send = RaisingNotifier RuntimeError\<rparr>
      andi_order init_state) = Inl RuntimeError"
    using run_checkout_obj_failures [where fmt = format_int
        and self = "\<lparr>process = as_process cc_processor,
          send = RaisingNotifier RuntimeError\<rparr>"
        and order = andi_order and st = init_state and tot = "''500000''"
        and e = RuntimeError and ?order1.0 = andi_order
        and out = "[log_info LOGGER3 ''Payment: Memproses Kartu Kredit.'']" and ?s1.0 = "()"
        and ?order2.0 = "andi_order\<lparr>status := ''paid''\<rparr>" and ?out' = "[]"
        and ?s2.0 = "()", THEN conjunct2, THEN conjunct2, THEN conjunct2, THEN conjunct1,
        rule_format, OF f p4 n4]
    by simp
  have r5: "fst (run_checkout_obj format_int (as_injected checkout_cc) andi_order init_state)
      = Inr True"
    using run_checkout_obj_failures [where fmt = format_int
        and self = "as_injected checkout_cc"
        and order = andi_order and st = init_state and tot = "''500000''"
        and ?order1.0 = andi_order
        and out = "[log_info LOGGER3 ''Payment: Memproses Kartu Kredit.'']" and ?s1.0 = "()"
        and u = "()" and ?order2.0 = "andi_order\<lparr>status := ''paid''\<rparr>"
        and ?out' = "[log_info LOGGER2 ''Notif: Mengirim email konfirmasi ke Andi.'']"
        and ?s2.0 = "()", THEN conjunct2, THEN conjunct2, THEN conjunct2, THEN conjunct2,
        rule_format, OF f p5 n5]
    by simp
  show ?thesis
    using f p1 r1 fo r2 p3 r3 p4 n4 r4 p5 n5 r5 by (intro conjI)
qed

subsection \<open>The payment processors of the file\<close>

text \<open>
  C6: for every order, \<open>CreditCardProcessor.process\<close> and \<open>QrisProcessor.process\<close> both
  return \<open>True\<close>, whatever the order and the state are: neither has a path that
  returns \<open>False\<close>.
\<close>

theorem processors_always_succeed:
  "fst (CreditCardProcessor order s) = True \<and> fst (QrisProcessor order s) = True"
  by (simp add: CreditCardProcessor_def QrisProcessor_def)

text \<open>
  The coordinator sees a processor through its result alone: two processors that
  return the same result on an order leave the same order behind.
\<close>

lemma run_checkout_same_outcome:
  assumes "fst (p1 order (priv st)) = fst (p2 order (priv st))"
  shows "fst (snd (run_checkout fmt \<lparr>payment_processor = p1, notifier = nt\<rparr> order st))
       = fst (snd (run_checkout fmt \<lparr>payment_processor = p2, notifier = nt\<rparr> order st))"
  using assms by (simp add: run_checkout_order)

text \<open>
  C7: for every order, a service built with \<open>CreditCardProcessor\<close> and one built with
  \<open>QrisProcessor\<close>, with the same notifier and the same \<open>run_checkout\<close>, behave alike:
  the same result and the same order at the end. They also make the same calls, leave
  the same private state and the same output, and write logs of the same length that
  differ only in the record of the logger \<open>Metode Pembayaran\<close>.
\<close>

theorem swap_processor:
  "(case run_checkout fmt \<lparr>payment_processor = CreditCardProcessor, notifier = nt\<rparr> order st of
      (r1, order1, st1) \<Rightarrow>
    case run_checkout fmt \<lparr>payment_processor = QrisProcessor, notifier = nt\<rparr> order st of
      (r2, order2, st2) \<Rightarrow>
        r1 = r2 \<and> order1 = order2
        \<and> calls st1 = calls st2 \<and> priv st1 = priv st2 \<and> stdout st1 = stdout st2
        \<and> length (logged st1) = length (logged st2)
        \<and> [r \<leftarrow> logged st1. name r \<noteq> LOGGER3] = [r \<leftarrow> logged st2. name r \<noteq> LOGGER3])"
proof -
  obtain out' s2 where n: "nt (order\<lparr>status := ''paid''\<rparr>) (priv st) = (out', s2)"
    by (cases "nt (order\<lparr>status := ''paid''\<rparr>) (priv st)")
  have cc: "payment_processor \<lparr>payment_processor = CreditCardProcessor, notifier = nt\<rparr>
      order (priv st) = (True, [log_info LOGGER3 ''Payment: Memproses Kartu Kredit.''], priv st)"
    by (simp add: CreditCardProcessor_def)
  have qr: "payment_processor \<lparr>payment_processor = QrisProcessor, notifier = nt\<rparr>
      order (priv st) = (True, [log_info LOGGER3 ''Payment: Memproses QRIS.''], priv st)"
    by (simp add: QrisProcessor_def)
  from n have n1: "notifier \<lparr>payment_processor = CreditCardProcessor, notifier = nt\<rparr>
      (order\<lparr>status := ''paid''\<rparr>) (priv st) = (out', s2)"
    by simp
  from n have n2: "notifier \<lparr>payment_processor = QrisProcessor, notifier = nt\<rparr>
      (order\<lparr>status := ''paid''\<rparr>) (priv st) = (out', s2)"
    by simp
  show ?thesis
    by (simp add: run_checkout_success [OF cc n1] run_checkout_success [OF qr n2] log_info_def)
qed

subsection \<open>Orders and the script\<close>

text \<open>
  C8: for every customer name and every price, an order constructed from these two
  arguments alone has the status \<open>"open"\<close>.
\<close>

theorem Order_init_status_open: "status (Order_init cn tp None) = ''open''"
  by (simp add: Order_init_def)

text \<open>
  C9: the two scenarios of the script. The checkout of \<open>Order("Andi", 500000)\<close> with the
  credit card processor returns \<open>True\<close> and leaves the status \<open>"paid"\<close>, with one call
  of \<open>send\<close>, on Andi's paid order; the checkout of \<open>Order("Budi", 100000)\<close> with the
  QRIS processor returns \<open>True\<close> and leaves the status \<open>"paid"\<close>, with one call of
  \<open>send\<close>, on Budi's paid order. The run of the whole script, with its log, its
  output and its calls:
\<close>

theorem main_scenarios:
  "main =
     ((True, \<lparr>customer_name = ''Andi'', total_price = 500000, status = ''paid''\<rparr>),
      (True, \<lparr>customer_name = ''Budi'', total_price = 100000, status = ''paid''\<rparr>),
      \<lparr>logged =
         [log_info LOGGER ''Memulai checkout untuk Andi. Total: 500000'',
          log_info LOGGER3 ''Payment: Memproses Kartu Kredit.'',
          log_info LOGGER2 ''Notif: Mengirim email konfirmasi ke Andi.'',
          log_info LOGGER ''Checkout Sukses. Status pesanan: PAID'',
          log_info LOGGER ''Memulai checkout untuk Budi. Total: 100000'',
          log_info LOGGER3 ''Payment: Memproses QRIS.'',
          log_info LOGGER2 ''Notif: Mengirim email konfirmasi ke Budi.'',
          log_info LOGGER ''Checkout Sukses. Status pesanan: PAID''],
       stdout =
         [''--- Skenario 1: Credit Card ---'',
          CHR 0x0A # ''--- Skenario 2: Pembuktian OCP (QRIS) ---''],
       priv = (),
       calls =
         [Process \<lparr>customer_name = ''Andi'', total_price = 500000, status = ''open''\<rparr>,
          Send \<lparr>customer_name = ''Andi'', total_price = 500000, status = ''paid''\<rparr>,
          Process \<lparr>customer_name = ''Budi'', total_price = 100000, status = ''open''\<rparr>,
          Send \<lparr>customer_name = ''Budi'', total_price = 100000, status = ''paid''\<rparr>]\<rparr>)"
  by (simp add: main_def run_checkout_cc run_checkout_qris print_def init_state_def)

subsection \<open>A checkout of a paid order\<close>

text \<open>
  C10, under the conditions it needs: \<open>run_checkout\<close> does not look at the status of the order it is
  given. Called on an order that is already \<open>"paid"\<close> (as in a second checkout of the
  same order), with a price that can be formatted, a processor that returns \<open>True\<close> and
  a notifier that returns, neither assigning to the order, it returns \<open>True\<close> again,
  leaves the order as it is, status \<open>"paid"\<close>, and calls \<open>send\<close> again on that order:
  the notifier's log records and its change of state are there again, at every
  successful call.
\<close>

theorem run_checkout_obj_paid_order:
  assumes s: "status order = ''paid''"
    and f: "fmt (total_price order) = Inr tot"
    and p: "process self order (priv st) = (Inr True, order, out, s1)"
    and n: "send self order s1 = (Inr u, order, out', s2)"
  shows "run_checkout_obj fmt self order st =
     (Inr True, order,
      st\<lparr>logged := logged st
            @ [log_info LOGGER (''Memulai checkout untuk '' @ customer_name order
                 @ ''. Total: '' @ tot)]
            @ out @ out'
            @ [log_info LOGGER ''Checkout Sukses. Status pesanan: PAID''],
         priv := s2,
         calls := calls st @ [Process order, Send order]\<rparr>)"
proof -
  from s have same: "order\<lparr>status := ''paid''\<rparr> = order"
    by simp
  with n have n': "send self (order\<lparr>status := ''paid''\<rparr>) s1 = (Inr u, order, out', s2)"
    by simp
  show ?thesis
    unfolding obj_paid [where fmt = fmt and order = order and self = self and st = st,
      OF f p n'] same ..
qed

text \<open>
  Without the condition on the notifier the claim fails: on Andi's paid order, with the
  credit card processor, which always succeeds, and a notifier that assigns \<open>"sent"\<close>
  to the status, the checkout returns \<open>True\<close> and the status is no longer \<open>"paid"\<close>.
\<close>

theorem run_checkout_obj_paid_order_counterexample:
  "status (andi_order\<lparr>status := ''paid''\<rparr>) = ''paid''
   \<and> fst (as_process CreditCardProcessor (andi_order\<lparr>status := ''paid''\<rparr>) ()
          :: (py_error + bool) \<times> int Order \<times> log_record list \<times> unit) = Inr True
   \<and> fst (run_checkout_obj format_int
          \<lparr>process = as_process CreditCardProcessor,
             send = AssigningNotifier (\<lambda>order. order\<lparr>status := ''sent''\<rparr>)\<rparr>
          (andi_order\<lparr>status := ''paid''\<rparr>) init_state) = Inr True
   \<and> status (fst (snd (run_checkout_obj format_int
          \<lparr>process = as_process CreditCardProcessor,
             send = AssigningNotifier (\<lambda>order. order\<lparr>status := ''sent''\<rparr>)\<rparr>
          (andi_order\<lparr>status := ''paid''\<rparr>) init_state))) \<noteq> ''paid''"
  by (simp add: obj_defs script_defs format_int_500000)

text \<open>The credit card service of the script on Andi's paid order.\<close>

theorem run_checkout_obj_paid_order_witness:
  "status (andi_order\<lparr>status := ''paid''\<rparr>) = ''paid''
   \<and> format_int (total_price (andi_order\<lparr>status := ''paid''\<rparr>)) = Inr ''500000''
   \<and> process (as_injected checkout_cc) (andi_order\<lparr>status := ''paid''\<rparr>) (priv init_state) =
       (Inr True, andi_order\<lparr>status := ''paid''\<rparr>,
        [log_info LOGGER3 ''Payment: Memproses Kartu Kredit.''], ())
   \<and> send (as_injected checkout_cc) (andi_order\<lparr>status := ''paid''\<rparr>) () =
       (Inr (), andi_order\<lparr>status := ''paid''\<rparr>,
        [log_info LOGGER2 ''Notif: Mengirim email konfirmasi ke Andi.''], ())
   \<and> run_checkout_obj format_int (as_injected checkout_cc)
         (andi_order\<lparr>status := ''paid''\<rparr>) init_state =
       (Inr True, andi_order\<lparr>status := ''paid''\<rparr>,
        \<lparr>logged =
           [log_info LOGGER ''Memulai checkout untuk Andi. Total: 500000'',
            log_info LOGGER3 ''Payment: Memproses Kartu Kredit.'',
            log_info LOGGER2 ''Notif: Mengirim email konfirmasi ke Andi.'',
            log_info LOGGER ''Checkout Sukses. Status pesanan: PAID''],
         stdout = [], priv = (),
         calls = [Process (andi_order\<lparr>status := ''paid''\<rparr>),
                  Send (andi_order\<lparr>status := ''paid''\<rparr>)]\<rparr>)"
proof -
  have s: "status (andi_order\<lparr>status := ''paid''\<rparr>) = ''paid''"
    by simp
  have f: "format_int (total_price (andi_order\<lparr>status := ''paid''\<rparr>)) = Inr ''500000''"
    by (simp add: script_defs format_int_500000)
  have p: "process (as_injected checkout_cc) (andi_order\<lparr>status := ''paid''\<rparr>)
      (priv init_state) =
      (Inr True, andi_order\<lparr>status := ''paid''\<rparr>,
       [log_info LOGGER3 ''Payment: Memproses Kartu Kredit.''], ())"
    by (simp add: obj_defs script_defs)
  have n: "send (as_injected checkout_cc) (andi_order\<lparr>status := ''paid''\<rparr>) () =
      (Inr (), andi_order\<lparr>status := ''paid''\<rparr>,
       [log_info LOGGER2 ''Notif: Mengirim email konfirmasi ke Andi.''], ())"
    by (simp add: obj_defs script_defs)
  have i: "init_state = \<lparr>logged = [], stdout = [], priv = (), calls = []\<rparr>"
    by (rule init_state_def)
  have c: "customer_name andi_order = ''Andi''"
    by (simp add: script_defs)
  show ?thesis
    using s f p n
      run_checkout_obj_paid_order [where fmt = format_int
        and self = "as_injected checkout_cc"
        and order = "andi_order\<lparr>status := ''paid''\<rparr>" and st = init_state,
        OF s f p n]
    by (simp add: i c)
qed

end
